theory Spec2Isabelle
  imports Complex_Main
begin

section \<open>Resource categories\<close>

text \<open>
  \<^verbatim>\<open>class ResourceType(Enum)\<close> of \<^verbatim>\<open>pyhanko/pdf_utils/content.py\<close>: seven members, each
  with a PDF name as its value. A PDF name (\<^verbatim>\<open>NameObject\<close>, a subclass of \<^verbatim>\<open>str\<close>) is
  modelled as a \<^typ>\<open>string\<close>.
\<close>

datatype ResourceType =
  EXT_G_STATE | COLOR_SPACE | PATTERN | SHADING | XOBJECT | FONT | PROPERTIES

type_synonym NameObject = string

fun ResourceType_value :: "ResourceType \<Rightarrow> NameObject" where
  "ResourceType_value EXT_G_STATE = ''/ExtGState''"
| "ResourceType_value COLOR_SPACE = ''/ColorSpace''"
| "ResourceType_value PATTERN = ''/Pattern''"
| "ResourceType_value SHADING = ''/Shading''"
| "ResourceType_value XOBJECT = ''/XObject''"
| "ResourceType_value FONT = ''/Font''"
| "ResourceType_value PROPERTIES = ''/Properties''"

text \<open>
  \<^verbatim>\<open>for k in ResourceType\<close> visits the members in the order of their definition in the
  class body.
\<close>

definition ResourceType_members :: "ResourceType list" where
  "ResourceType_members =
     [EXT_G_STATE, COLOR_SPACE, PATTERN, SHADING, XOBJECT, FONT, PROPERTIES]"

text \<open>
  The place of a member in that iteration, counted from 0: the number of members
  visited before it.
\<close>

definition position :: "ResourceType \<Rightarrow> nat" where
  "position c = length (takeWhile (\<lambda>k. k \<noteq> c) ResourceType_members)"

section \<open>Errors\<close>

text \<open>
  The two exceptions the module raises. \<^verbatim>\<open>ResourceManagementError\<close> (a \<^verbatim>\<open>ValueError\<close>)
  carries its message; \<^verbatim>\<open>NotImplementedError\<close> is raised without arguments.
\<close>

datatype error = ResourceManagementError string | NotImplementedError

section \<open>Dictionaries\<close>

text \<open>
  Modelled from the spec: \<^verbatim>\<open>DictionaryObject\<close> (of \<^verbatim>\<open>pyhanko.pdf_utils.generic\<close>, which
  is not part of the excerpt) is "a dictionary-like container type supporting key/value
  iteration and indexing". It is a Python \<^verbatim>\<open>dict\<close>: iteration follows insertion order,
  an assignment to a key that is present keeps the key's place, an assignment to a new
  key appends it, and a dictionary is true exactly when it is not empty. The model is
  the list of its items in iteration order; a list is a dictionary when its keys are
  distinct (\<open>wf_dict\<close>).
\<close>

type_synonym ('k, 'v) dict = "('k \<times> 'v) list"

definition dict_keys :: "('k, 'v) dict \<Rightarrow> 'k list" where
  "dict_keys d = map fst d"

definition wf_dict :: "('k, 'v) dict \<Rightarrow> bool" where
  "wf_dict d = distinct (dict_keys d)"

text \<open>\<^verbatim>\<open>k in d\<close>\<close>

definition dict_contains :: "'k \<Rightarrow> ('k, 'v) dict \<Rightarrow> bool" where
  "dict_contains k d = (k \<in> set (dict_keys d))"

text \<open>\<^verbatim>\<open>d[k] = v\<close>\<close>

fun dict_setitem :: "('k, 'v) dict \<Rightarrow> 'k \<Rightarrow> 'v \<Rightarrow> ('k, 'v) dict" where
  "dict_setitem [] k v = [(k, v)]"
| "dict_setitem ((k', v') # d) k v =
     (if k' = k then (k, v) # d else (k', v') # dict_setitem d k v)"

text \<open>\<^verbatim>\<open>d.get(k)\<close>: the value stored under a key, if any.\<close>

definition dict_get :: "('k, 'v) dict \<Rightarrow> 'k \<Rightarrow> 'v option" where
  "dict_get d k = map_of d k"

section \<open>Merging one mapping into another\<close>

text \<open>
  \<^verbatim>\<open>
  def _res_merge_helper(dict1, dict2):
      for k, v2 in dict2.items():
          if k in dict1:
              raise ResourceManagementError(
                  f"Resource with name {k} occurs in both dictionaries."
              )
          dict1[k] = v2
      return dict1
  \<close>
  \<open>dict1\<close> is mutated in place, so its state is returned on both paths: with the error
  when the loop raises (the insertions made so far persist), with \<open>Inr ()\<close> when the
  function returns (the returned reference is \<open>dict1\<close> itself). The second argument
  is the list of items still to visit; \<open>dict2\<close> is only read.

  When both arguments are the same object, the first item visited is found in \<open>dict1\<close>
  and the loop raises before any assignment, so no dictionary is ever changed while it
  is iterated: visiting the items that \<open>dict2\<close> held at the call is what the code does
  in that case too.
\<close>

definition conflict_message :: "NameObject \<Rightarrow> string" where
  "conflict_message k = ''Resource with name '' @ k @ '' occurs in both dictionaries.''"

fun res_merge_helper ::
  "(NameObject, 'v) dict \<Rightarrow> (NameObject \<times> 'v) list \<Rightarrow> (error + unit) \<times> (NameObject, 'v) dict"
where
  "res_merge_helper dict1 [] = (Inr (), dict1)"
| "res_merge_helper dict1 ((k, v2) # items) =
     (if dict_contains k dict1
      then (Inl (ResourceManagementError (conflict_message k)), dict1)
      else res_merge_helper (dict_setitem dict1 k v2) items)"

section \<open>Resource dictionaries\<close>

text \<open>
  \<^verbatim>\<open>class PdfResources\<close>: one dictionary per category, created empty by \<^verbatim>\<open>__init__\<close>.
  The resource values (\<^verbatim>\<open>PdfObject\<close>) are opaque to the module: the type \<open>'v\<close>.
  Each instance holds the seven dictionaries its constructor created, and nothing in
  the module rebinds those attributes, so an instance's state is the seven values.
\<close>

record 'v PdfResources =
  ext_g_state :: "(NameObject, 'v) dict"
  color_space :: "(NameObject, 'v) dict"
  pattern :: "(NameObject, 'v) dict"
  shading :: "(NameObject, 'v) dict"
  xobject :: "(NameObject, 'v) dict"
  font :: "(NameObject, 'v) dict"
  properties :: "(NameObject, 'v) dict"

definition PdfResources_init :: "'v PdfResources" where
  "PdfResources_init =
     \<lparr> ext_g_state = [], color_space = [], pattern = [], shading = [],
       xobject = [], font = [], properties = [] \<rparr>"

text \<open>
  \<^verbatim>\<open>__getitem__\<close>: \<^verbatim>\<open>getattr(self, item.name.lower())\<close>, the attribute whose name is the
  member's name in lower case.
\<close>

fun getitem :: "'v PdfResources \<Rightarrow> ResourceType \<Rightarrow> (NameObject, 'v) dict" where
  "getitem self EXT_G_STATE = ext_g_state self"
| "getitem self COLOR_SPACE = color_space self"
| "getitem self PATTERN = pattern self"
| "getitem self SHADING = shading self"
| "getitem self XOBJECT = xobject self"
| "getitem self FONT = font self"
| "getitem self PROPERTIES = properties self"

text \<open>
  \<^verbatim>\<open>self[k]\<close> is a reference to the live dictionary, and the callers mutate it in
  place. \<open>putitem self k d\<close> is the instance after the dictionary of category \<open>k\<close>
  has reached the state \<open>d\<close>.
\<close>

fun putitem :: "'v PdfResources \<Rightarrow> ResourceType \<Rightarrow> (NameObject, 'v) dict \<Rightarrow> 'v PdfResources" where
  "putitem self EXT_G_STATE d = self\<lparr>ext_g_state := d\<rparr>"
| "putitem self COLOR_SPACE d = self\<lparr>color_space := d\<rparr>"
| "putitem self PATTERN d = self\<lparr>pattern := d\<rparr>"
| "putitem self SHADING d = self\<lparr>shading := d\<rparr>"
| "putitem self XOBJECT d = self\<lparr>xobject := d\<rparr>"
| "putitem self FONT d = self\<lparr>font := d\<rparr>"
| "putitem self PROPERTIES d = self\<lparr>properties := d\<rparr>"

text \<open>
  \<^verbatim>\<open>
  def __iadd__(self, other):
      for k in ResourceType:
          _res_merge_helper(self[k], other[k])
      return self
  \<close>
  The loop over the categories still to visit. An exception of the helper leaves the
  loop; what the helper and the earlier iterations stored in \<open>self\<close> stays.
\<close>

fun iadd_loop ::
  "'v PdfResources \<Rightarrow> 'v PdfResources \<Rightarrow> ResourceType list \<Rightarrow> (error + unit) \<times> 'v PdfResources"
where
  "iadd_loop self other [] = (Inr (), self)"
| "iadd_loop self other (k # ks) =
     (case res_merge_helper (getitem self k) (getitem other k) of
        (Inl e, d) \<Rightarrow> (Inl e, putitem self k d)
      | (Inr _, d) \<Rightarrow> iadd_loop (putitem self k d) other ks)"

definition iadd :: "'v PdfResources \<Rightarrow> 'v PdfResources \<Rightarrow> (error + unit) \<times> 'v PdfResources" where
  "iadd self other = iadd_loop self other ResourceType_members"

text \<open>
  \<^verbatim>\<open>res1 += res2\<close> on two instances held in a store of objects (references are
  numbers): \<^verbatim>\<open>__iadd__\<close> runs on the object \<open>a\<close> refers to, reading the object \<open>b\<close>
  refers to, and only the former is written. The two references may be the same one;
  then every non-empty category raises at its first item and nothing is stored, which
  is what \<open>iadd (h a) (h a)\<close> computes.
\<close>

type_synonym 'v store = "nat \<Rightarrow> 'v PdfResources"

definition iadd_stmt :: "'v store \<Rightarrow> nat \<Rightarrow> nat \<Rightarrow> (error + unit) \<times> 'v store" where
  "iadd_stmt h a b = (case iadd (h a) (h b) of (r, self') \<Rightarrow> (r, h(a := self')))"

text \<open>
  \<^verbatim>\<open>
  def as_pdf_object(self) -> DictionaryObject:
      def _gen():
          for k in ResourceType:
              val = self[k]
              if val:
                  yield k.value, val
      return DictionaryObject({k: v for k, v in _gen()})
  \<close>
  The generator over the categories still to visit, the dictionary comprehension that
  stores its pairs one after the other, and the copy into a new \<^verbatim>\<open>DictionaryObject\<close>.
\<close>

fun as_pdf_object_gen ::
  "'v PdfResources \<Rightarrow> ResourceType list \<Rightarrow> (NameObject \<times> (NameObject, 'v) dict) list"
where
  "as_pdf_object_gen self [] = []"
| "as_pdf_object_gen self (k # ks) =
     (let val = getitem self k
      in if val \<noteq> [] then (ResourceType_value k, val) # as_pdf_object_gen self ks
         else as_pdf_object_gen self ks)"

definition dict_comprehension :: "('k \<times> 'v) list \<Rightarrow> ('k, 'v) dict" where
  "dict_comprehension pairs = foldl (\<lambda>d (k, v). dict_setitem d k v) [] pairs"

definition as_pdf_object :: "'v PdfResources \<Rightarrow> (NameObject, (NameObject, 'v) dict) dict" where
  "as_pdf_object self = dict_comprehension (as_pdf_object_gen self ResourceType_members)"

section \<open>Content fragments\<close>

text \<open>
  Modelled from the spec: \<^verbatim>\<open>BoxConstraints\<close> (of \<^verbatim>\<open>pyhanko.pdf_utils.misc\<close>, which is not
  part of the excerpt) is "a bounding box exposing non-negative width and height",
  both required. The module only reads the two dimensions and passes them on.
\<close>

record BoxConstraints =
  width :: real
  height :: real

type_synonym bytes = "char list"

text \<open>
  \<^verbatim>\<open>class PdfContent\<close>: the resource dictionary (\<^verbatim>\<open>_resources\<close>, read through the
  property \<^verbatim>\<open>resources\<close>), the box and the optional writer, whose state is opaque to the
  module: the type \<open>'w\<close>. Subclasses add attributes; they are the record's extension.
\<close>

record ('v, 'w) PdfContent =
  resources :: "'v PdfResources"
  box :: BoxConstraints
  writer :: "'w option"

text \<open>
  \<^verbatim>\<open>
  def __init__(self, resources=None, box=None, writer=None):
      self._resources = resources or PdfResources()
      self.box = box or BoxConstraints()
      self.writer = writer
  \<close>
  Instances of both classes are true, so \<^verbatim>\<open>or\<close> only replaces \<^verbatim>\<open>None\<close>. What
  \<^verbatim>\<open>BoxConstraints()\<close> builds is outside the excerpt: the parameter \<open>new_box\<close>.
\<close>

definition PdfContent_init ::
  "BoxConstraints \<Rightarrow> 'v PdfResources option \<Rightarrow> BoxConstraints option \<Rightarrow> 'w option
     \<Rightarrow> ('v, 'w) PdfContent"
where
  "PdfContent_init new_box res bx wr =
     \<lparr> resources = (case res of None \<Rightarrow> PdfResources_init | Some r \<Rightarrow> r),
       box = (case bx of None \<Rightarrow> new_box | Some b \<Rightarrow> b),
       writer = wr \<rparr>"

text \<open>
  The methods take the instance and return it with their result: \<open>Inr\<close> of the value
  returned (\<open>()\<close> for \<^verbatim>\<open>None\<close>), or \<open>Inl\<close> of the exception raised.

  \<^verbatim>\<open>set_resource\<close>: \<^verbatim>\<open>self._resources[category][name] = value\<close>
\<close>

definition set_resource ::
  "('v, 'w, 'z) PdfContent_scheme \<Rightarrow> ResourceType \<Rightarrow> NameObject \<Rightarrow> 'v
     \<Rightarrow> (error + unit) \<times> ('v, 'w, 'z) PdfContent_scheme"
where
  "set_resource self category name val =
     (Inr (),
      self\<lparr>resources :=
        putitem (resources self) category
          (dict_setitem (getitem (resources self) category) name val)\<rparr>)"

text \<open>
  \<^verbatim>\<open>import_resources\<close>: \<^verbatim>\<open>self._resources += resources\<close>. An exception of \<^verbatim>\<open>__iadd__\<close>
  passes through; the object \<^verbatim>\<open>_resources\<close> refers to keeps what the merge stored.
\<close>

definition import_resources ::
  "('v, 'w, 'z) PdfContent_scheme \<Rightarrow> 'v PdfResources
     \<Rightarrow> (error + unit) \<times> ('v, 'w, 'z) PdfContent_scheme"
where
  "import_resources self res =
     (case iadd (resources self) res of (r, res') \<Rightarrow> (r, self\<lparr>resources := res'\<rparr>))"

text \<open>\<^verbatim>\<open>render\<close> of the base class: \<^verbatim>\<open>raise NotImplementedError\<close>\<close>

definition PdfContent_render ::
  "('v, 'w, 'z) PdfContent_scheme \<Rightarrow> (error + bytes) \<times> ('v, 'w, 'z) PdfContent_scheme"
where
  "PdfContent_render self = (Inl NotImplementedError, self)"

text \<open>
  \<^verbatim>\<open>
  def as_form_xobject(self) -> StreamObject:
      from pyhanko.pdf_utils.writer import init_xobject_dictionary
      command_stream = self.render()
      return init_xobject_dictionary(
          command_stream=command_stream, box_width=self.box.width,
          box_height=self.box.height,
          resources=self._resources.as_pdf_object()
      )
  \<close>
  \<^verbatim>\<open>self.render\<close> is the method of the instance's class, which may change the instance:
  the parameter \<open>render\<close>. \<^verbatim>\<open>init_xobject_dictionary\<close> belongs to the writer module,
  outside the excerpt: the parameter of the same name, a function of its four
  arguments. The box and the resources are read after \<^verbatim>\<open>render\<close> has returned.
\<close>

definition as_form_xobject ::
  "(('v, 'w, 'z) PdfContent_scheme \<Rightarrow> (error + bytes) \<times> ('v, 'w, 'z) PdfContent_scheme)
     \<Rightarrow> (bytes \<Rightarrow> real \<Rightarrow> real \<Rightarrow> (NameObject, (NameObject, 'v) dict) dict \<Rightarrow> 'stream)
     \<Rightarrow> ('v, 'w, 'z) PdfContent_scheme
     \<Rightarrow> (error + 'stream) \<times> ('v, 'w, 'z) PdfContent_scheme"
where
  "as_form_xobject render init_xobject_dictionary self =
     (case render self of
        (Inl e, self') \<Rightarrow> (Inl e, self')
      | (Inr command_stream, self') \<Rightarrow>
          (Inr (init_xobject_dictionary command_stream
                  (width (box self')) (height (box self'))
                  (as_pdf_object (resources self'))),
           self'))"

text \<open>\<^verbatim>\<open>set_writer\<close>: \<^verbatim>\<open>self.writer = writer\<close>\<close>

definition set_writer ::
  "('v, 'w, 'z) PdfContent_scheme \<Rightarrow> 'w option
     \<Rightarrow> (error + unit) \<times> ('v, 'w, 'z) PdfContent_scheme"
where
  "set_writer self wr = (Inr (), self\<lparr>writer := wr\<rparr>)"

text \<open>
  \<^verbatim>\<open>
  class RawContent(PdfContent):
      def __init__(self, data: bytes, resources=None, box=None):
          super().__init__(resources, box)
          self.data = data
      def render(self) -> bytes:
          return self.data
  \<close>
\<close>

record ('v, 'w) RawContent = "('v, 'w) PdfContent" +
  data :: bytes

definition RawContent_init ::
  "BoxConstraints \<Rightarrow> bytes \<Rightarrow> 'v PdfResources option \<Rightarrow> BoxConstraints option
     \<Rightarrow> ('v, 'w) RawContent"
where
  "RawContent_init new_box dat res bx =
     PdfContent.extend (PdfContent_init new_box res bx None) (RawContent.fields dat)"

definition RawContent_render ::
  "('v, 'w, 'z) RawContent_scheme \<Rightarrow> (error + bytes) \<times> ('v, 'w, 'z) RawContent_scheme"
where
  "RawContent_render self = (Inr (data self), self)"

section \<open>Properties of inputs\<close>

text \<open>
  The two mappings of category \<open>c\<close> share no name; no category has a shared name;
  every mapping of an instance is a dictionary.
\<close>

definition no_conflict :: "'v PdfResources \<Rightarrow> 'v PdfResources \<Rightarrow> ResourceType \<Rightarrow> bool" where
  "no_conflict A B c = (set (dict_keys (getitem A c)) \<inter> set (dict_keys (getitem B c)) = {})"

definition disjoint_resources :: "'v PdfResources \<Rightarrow> 'v PdfResources \<Rightarrow> bool" where
  "disjoint_resources A B = list_all (no_conflict A B) ResourceType_members"

definition wf_resources :: "'v PdfResources \<Rightarrow> bool" where
  "wf_resources A = list_all (\<lambda>c. wf_dict (getitem A c)) ResourceType_members"

section \<open>Facts about dictionaries\<close>

lemma dict_setitem_fresh:
  "k \<notin> set (dict_keys d) \<Longrightarrow> dict_setitem d k v = d @ [(k, v)]"
  by (induction d) (auto simp: dict_keys_def)

lemma dict_get_setitem: "dict_get (dict_setitem d k v) = (dict_get d)(k \<mapsto> v)"
  by (induction d) (auto simp: dict_get_def fun_eq_iff)

lemma dict_keys_setitem:
  "dict_keys (dict_setitem d k v) = (if dict_contains k d then dict_keys d else dict_keys d @ [k])"
  by (induction d) (force simp: dict_keys_def dict_contains_def)+

text \<open>
  A merge without a shared name appends the items of the second mapping, in their order.
\<close>

lemma helper_disjoint:
  "distinct (dict_keys items) \<Longrightarrow> set (dict_keys dict1) \<inter> set (dict_keys items) = {}
   \<Longrightarrow> res_merge_helper dict1 items = (Inr (), dict1 @ items)"
proof (induction items arbitrary: dict1)
  case Nil
  then show ?case by simp
next
  case (Cons kv items)
  obtain k v where kv: "kv = (k, v)" by (cases kv)
  from Cons.prems have fresh: "k \<notin> set (dict_keys dict1)"
    and rest: "distinct (dict_keys items)" "k \<notin> set (dict_keys items)"
    and disj: "set (dict_keys dict1) \<inter> set (dict_keys items) = {}"
    by (auto simp: kv dict_keys_def)
  have "set (dict_keys (dict1 @ [(k, v)])) \<inter> set (dict_keys items) = {}"
    using disj rest by (auto simp: dict_keys_def)
  with Cons.IH [of "dict1 @ [(k, v)]"] rest fresh show ?case
    by (simp add: kv dict_contains_def dict_setitem_fresh)
qed

text \<open>
  A merge stops at the first item whose name the first mapping holds; the items before
  it have been appended.
\<close>

lemma helper_conflict:
  "distinct (dict_keys pre) \<Longrightarrow> set (dict_keys dict1) \<inter> set (dict_keys pre) = {}
   \<Longrightarrow> n \<in> set (dict_keys dict1)
   \<Longrightarrow> res_merge_helper dict1 (pre @ (n, v) # post)
       = (Inl (ResourceManagementError (conflict_message n)), dict1 @ pre)"
proof (induction pre arbitrary: dict1)
  case Nil
  then show ?case by (simp add: dict_contains_def)
next
  case (Cons kv pre)
  obtain k w where kv: "kv = (k, w)" by (cases kv)
  from Cons.prems have fresh: "k \<notin> set (dict_keys dict1)"
    and rest: "distinct (dict_keys pre)" "k \<notin> set (dict_keys pre)"
    and disj: "set (dict_keys dict1) \<inter> set (dict_keys pre) = {}"
    by (auto simp: kv dict_keys_def)
  have "set (dict_keys (dict1 @ [(k, w)])) \<inter> set (dict_keys pre) = {}"
    and "n \<in> set (dict_keys (dict1 @ [(k, w)]))"
    using disj rest Cons.prems(3) by (auto simp: dict_keys_def)
  with Cons.IH [of "dict1 @ [(k, w)]"] rest fresh show ?case
    by (simp add: kv dict_contains_def dict_setitem_fresh)
qed

lemma first_conflict_split:
  assumes "set (dict_keys dict1) \<inter> set (dict_keys items) \<noteq> {}"
  shows "\<exists>pre n v post. items = pre @ (n, v) # post \<and> n \<in> set (dict_keys dict1)
           \<and> set (dict_keys dict1) \<inter> set (dict_keys pre) = {}"
proof -
  from assms obtain n where n1: "n \<in> set (dict_keys dict1)" and n2: "n \<in> set (dict_keys items)"
    by blast
  from n2 obtain x where "x \<in> set items" "fst x = n"
    unfolding dict_keys_def by auto
  with n1 have "\<exists>x \<in> set items. fst x \<in> set (dict_keys dict1)" by blast
  then obtain pre x post where s: "items = pre @ x # post" "fst x \<in> set (dict_keys dict1)"
    "\<forall>y \<in> set pre. fst y \<notin> set (dict_keys dict1)"
    using split_list_first_prop [of items "\<lambda>x. fst x \<in> set (dict_keys dict1)"] by blast
  then have "items = pre @ (fst x, snd x) # post" by simp
  moreover from s(3) have "set (dict_keys dict1) \<inter> set (dict_keys pre) = {}"
    by (force simp: dict_keys_def)
  ultimately show ?thesis using s(2) by blast
qed

text \<open>
  The dictionary comprehension over pairs with distinct keys keeps the pairs as they come.
\<close>

lemma foldl_setitem_fresh:
  "distinct (dict_keys (d @ ps)) \<Longrightarrow> foldl (\<lambda>d (k, v). dict_setitem d k v) d ps = d @ ps"
proof (induction ps arbitrary: d)
  case Nil
  then show ?case by simp
next
  case (Cons p ps)
  obtain k v where p: "p = (k, v)" by (cases p)
  from Cons.prems have "k \<notin> set (dict_keys d)" and "distinct (dict_keys ((d @ [(k, v)]) @ ps))"
    by (auto simp: p dict_keys_def)
  with Cons.IH [of "d @ [(k, v)]"] show ?case
    by (simp add: p dict_setitem_fresh)
qed

lemma dict_comprehension_distinct:
  "distinct (dict_keys ps) \<Longrightarrow> dict_comprehension ps = ps"
  using foldl_setitem_fresh [of "[]" ps] by (simp add: dict_comprehension_def)

section \<open>Facts about categories and resource dictionaries\<close>

lemma members_distinct: "distinct ResourceType_members"
  by (simp add: ResourceType_members_def)

lemma members_complete: "c \<in> set ResourceType_members"
  by (cases c) (simp_all add: ResourceType_members_def)

lemma before_iff_position:
  "k \<in> set (takeWhile (\<lambda>x. x \<noteq> c) ResourceType_members) \<longleftrightarrow> position k < position c"
  by (cases c; cases k) (simp_all add: position_def ResourceType_members_def)

lemma members_split:
  "ResourceType_members =
     takeWhile (\<lambda>x. x \<noteq> c) ResourceType_members @ c # tl (dropWhile (\<lambda>x. x \<noteq> c) ResourceType_members)"
  by (cases c) (simp_all add: ResourceType_members_def)

lemma value_inj: "ResourceType_value k = ResourceType_value k' \<Longrightarrow> k = k'"
  by (cases k; cases k') simp_all

lemma getitem_putitem:
  "getitem (putitem r k d) c = (if c = k then d else getitem r c)"
  by (cases k; cases c) simp_all

lemma PdfResources_eqI:
  fixes r s :: "'v PdfResources"
  assumes "\<And>c. getitem r c = getitem s c"
  shows "r = s"
proof -
  have "ext_g_state r = ext_g_state s" using assms [of EXT_G_STATE] by simp
  moreover have "color_space r = color_space s" using assms [of COLOR_SPACE] by simp
  moreover have "pattern r = pattern s" using assms [of PATTERN] by simp
  moreover have "shading r = shading s" using assms [of SHADING] by simp
  moreover have "xobject r = xobject s" using assms [of XOBJECT] by simp
  moreover have "font r = font s" using assms [of FONT] by simp
  moreover have "properties r = properties s" using assms [of PROPERTIES] by simp
  ultimately show ?thesis by simp
qed

lemma wf_resourcesD: "wf_resources B \<Longrightarrow> wf_dict (getitem B c)"
  using members_complete [of c] by (auto simp: wf_resources_def list_all_iff)

lemma disjoint_resourcesD: "disjoint_resources A B \<Longrightarrow> no_conflict A B c"
  using members_complete [of c] by (auto simp: disjoint_resources_def list_all_iff)

lemma no_conflict_self_empty:
  "no_conflict A A c \<Longrightarrow> getitem A c = []"
  by (cases "getitem A c") (auto simp: no_conflict_def dict_keys_def)

section \<open>The merge loop\<close>

lemma iadd_loop_disjoint:
  assumes "distinct ks"
    and "\<And>k. k \<in> set ks \<Longrightarrow> wf_dict (getitem other k)"
    and "\<And>k. k \<in> set ks \<Longrightarrow> no_conflict self other k"
  shows "\<exists>self'. iadd_loop self other ks = (Inr (), self') \<and>
           (\<forall>c. getitem self' c =
              (if c \<in> set ks then getitem self c @ getitem other c else getitem self c))"
  using assms
proof (induction ks arbitrary: self)
  case Nil
  then show ?case by simp
next
  case (Cons k ks)
  let ?s = "putitem self k (getitem self k @ getitem other k)"
  have hk: "res_merge_helper (getitem self k) (getitem other k)
              = (Inr (), getitem self k @ getitem other k)"
    using Cons.prems(2) [of k] Cons.prems(3) [of k]
    by (intro helper_disjoint) (simp_all add: wf_dict_def no_conflict_def)
  have nk: "k \<notin> set ks" and dks: "distinct ks" using Cons.prems(1) by simp_all
  have "\<exists>self'. iadd_loop ?s other ks = (Inr (), self') \<and>
           (\<forall>c. getitem self' c =
              (if c \<in> set ks then getitem ?s c @ getitem other c else getitem ?s c))"
  proof (rule Cons.IH [OF dks])
    fix j assume "j \<in> set ks"
    then show "wf_dict (getitem other j)" using Cons.prems(2) by simp
  next
    fix j assume j: "j \<in> set ks"
    with nk have "j \<noteq> k" by blast
    with Cons.prems(3) [of j] j show "no_conflict ?s other j"
      by (simp add: no_conflict_def getitem_putitem)
  qed
  then obtain self' where s': "iadd_loop ?s other ks = (Inr (), self')"
    and g: "\<And>c. getitem self' c =
              (if c \<in> set ks then getitem ?s c @ getitem other c else getitem ?s c)"
    by blast
  have "iadd_loop self other (k # ks) = (Inr (), self')"
    using hk s' by simp
  moreover have "\<forall>c. getitem self' c =
      (if c \<in> set (k # ks) then getitem self c @ getitem other c else getitem self c)"
    using g nk by (auto simp: getitem_putitem)
  ultimately show ?case by blast
qed

lemma iadd_loop_conflict:
  assumes "distinct (ks1 @ c # ks2)"
    and "\<And>k. k \<in> set ks1 \<Longrightarrow> wf_dict (getitem other k)"
    and "\<And>k. k \<in> set ks1 \<Longrightarrow> no_conflict self other k"
    and "getitem other c = pre @ (n, v) # post"
    and "distinct (dict_keys pre)"
    and "set (dict_keys (getitem self c)) \<inter> set (dict_keys pre) = {}"
    and "n \<in> set (dict_keys (getitem self c))"
  shows "\<exists>self'. iadd_loop self other (ks1 @ c # ks2)
             = (Inl (ResourceManagementError (conflict_message n)), self') \<and>
           (\<forall>k. getitem self' k =
              (if k \<in> set ks1 then getitem self k @ getitem other k
               else if k = c then getitem self c @ pre else getitem self k))"
  using assms
proof (induction ks1 arbitrary: self)
  case Nil
  have "res_merge_helper (getitem self c) (getitem other c)
          = (Inl (ResourceManagementError (conflict_message n)), getitem self c @ pre)"
    unfolding Nil.prems(4) using Nil.prems(5,6,7) by (rule helper_conflict)
  then show ?case by (simp add: getitem_putitem)
next
  case (Cons k ks1)
  let ?s = "putitem self k (getitem self k @ getitem other k)"
  have hk: "res_merge_helper (getitem self k) (getitem other k)
              = (Inr (), getitem self k @ getitem other k)"
    using Cons.prems(2) [of k] Cons.prems(3) [of k]
    by (intro helper_disjoint) (simp_all add: wf_dict_def no_conflict_def)
  have nk: "k \<notin> set ks1" "k \<noteq> c" and dks: "distinct (ks1 @ c # ks2)"
    using Cons.prems(1) by auto
  have "\<exists>self'. iadd_loop ?s other (ks1 @ c # ks2)
             = (Inl (ResourceManagementError (conflict_message n)), self') \<and>
           (\<forall>j. getitem self' j =
              (if j \<in> set ks1 then getitem ?s j @ getitem other j
               else if j = c then getitem ?s c @ pre else getitem ?s j))"
  proof (rule Cons.IH [OF dks _ _ Cons.prems(4) Cons.prems(5)])
    fix j assume "j \<in> set ks1"
    then show "wf_dict (getitem other j)" using Cons.prems(2) by simp
  next
    fix j assume j: "j \<in> set ks1"
    with nk have "j \<noteq> k" by blast
    with Cons.prems(3) [of j] j show "no_conflict ?s other j"
      by (simp add: no_conflict_def getitem_putitem)
  next
    show "set (dict_keys (getitem ?s c)) \<inter> set (dict_keys pre) = {}"
      using Cons.prems(6) nk by (simp add: getitem_putitem)
  next
    show "n \<in> set (dict_keys (getitem ?s c))"
      using Cons.prems(7) nk by (simp add: getitem_putitem)
  qed
  then obtain self' where
    s': "iadd_loop ?s other (ks1 @ c # ks2)
           = (Inl (ResourceManagementError (conflict_message n)), self')"
    and g: "\<And>j. getitem self' j =
              (if j \<in> set ks1 then getitem ?s j @ getitem other j
               else if j = c then getitem ?s c @ pre else getitem ?s j)"
    by blast
  have "iadd_loop self other ((k # ks1) @ c # ks2)
          = (Inl (ResourceManagementError (conflict_message n)), self')"
    using hk s' by simp
  moreover have "\<forall>j. getitem self' j =
      (if j \<in> set (k # ks1) then getitem self j @ getitem other j
       else if j = c then getitem self c @ pre else getitem self j)"
    using g nk by (auto simp: getitem_putitem)
  ultimately show ?case by blast
qed

text \<open>
  The whole merge, when no category has a shared name, and when the first shared name
  met is \<open>n\<close>, in category \<open>c\<close>, after the items \<open>pre\<close> of that category.
\<close>

lemma iadd_disjoint:
  assumes wf: "wf_resources other" and dj: "disjoint_resources self other"
  shows "\<exists>self'. iadd self other = (Inr (), self') \<and>
           (\<forall>c. getitem self' c = getitem self c @ getitem other c)"
proof -
  have "\<exists>self'. iadd_loop self other ResourceType_members = (Inr (), self') \<and>
           (\<forall>c. getitem self' c =
              (if c \<in> set ResourceType_members then getitem self c @ getitem other c
               else getitem self c))"
    by (rule iadd_loop_disjoint [OF members_distinct wf_resourcesD [OF wf] disjoint_resourcesD [OF dj]])
  then show ?thesis by (simp add: iadd_def members_complete)
qed

lemma iadd_first_conflict:
  assumes wf: "wf_resources other"
    and before: "\<And>k. position k < position c \<Longrightarrow> no_conflict self other k"
    and split: "getitem other c = pre @ (n, v) # post"
    and pre: "set (dict_keys (getitem self c)) \<inter> set (dict_keys pre) = {}"
    and n: "n \<in> set (dict_keys (getitem self c))"
  shows "\<exists>self'. iadd self other = (Inl (ResourceManagementError (conflict_message n)), self') \<and>
           (\<forall>k. getitem self' k =
              (if position k < position c then getitem self k @ getitem other k
               else if k = c then getitem self c @ pre else getitem self k))"
proof -
  let ?ks1 = "takeWhile (\<lambda>x. x \<noteq> c) ResourceType_members"
  let ?ks2 = "tl (dropWhile (\<lambda>x. x \<noteq> c) ResourceType_members)"
  have m: "ResourceType_members = ?ks1 @ c # ?ks2" by (rule members_split)
  have d: "distinct (?ks1 @ c # ?ks2)" using members_distinct m by simp
  have dp: "distinct (dict_keys pre)"
    using wf_resourcesD [OF wf, of c] split by (simp add: wf_dict_def dict_keys_def)
  have "\<exists>self'. iadd_loop self other (?ks1 @ c # ?ks2)
             = (Inl (ResourceManagementError (conflict_message n)), self') \<and>
           (\<forall>k. getitem self' k =
              (if k \<in> set ?ks1 then getitem self k @ getitem other k
               else if k = c then getitem self c @ pre else getitem self k))"
  proof (rule iadd_loop_conflict [OF d _ _ split dp pre n])
    fix k assume "k \<in> set ?ks1"
    show "wf_dict (getitem other k)" by (rule wf_resourcesD [OF wf])
  next
    fix k assume "k \<in> set ?ks1"
    then show "no_conflict self other k" using before by (simp add: before_iff_position)
  qed
  then show ?thesis
    unfolding iadd_def before_iff_position using m by simp
qed

lemma first_conflict_exists:
  assumes "\<not> no_conflict self other c0"
  shows "\<exists>c pre n v post. position c \<le> position c0 \<and>
           (\<forall>k. position k < position c \<longrightarrow> no_conflict self other k) \<and>
           getitem other c = pre @ (n, v) # post \<and>
           set (dict_keys (getitem self c)) \<inter> set (dict_keys pre) = {} \<and>
           n \<in> set (dict_keys (getitem self c))"
proof -
  define P where "P j \<longleftrightarrow> (\<exists>k. position k = j \<and> \<not> no_conflict self other k)" for j
  have "P (position c0)" using assms by (auto simp: P_def)
  then have L: "P (LEAST j. P j)" and M: "\<And>j. P j \<Longrightarrow> (LEAST j. P j) \<le> j"
    by (auto intro: LeastI Least_le)
  from L obtain c where c: "position c = (LEAST j. P j)" "\<not> no_conflict self other c"
    by (auto simp: P_def)
  have le: "position c \<le> position c0" using M [OF \<open>P (position c0)\<close>] c by simp
  have before: "\<forall>k. position k < position c \<longrightarrow> no_conflict self other k"
  proof (intro allI impI, rule ccontr)
    fix k assume k: "position k < position c" "\<not> no_conflict self other k"
    then have "P (position k)" by (auto simp: P_def)
    from M [OF this] k c show False by simp
  qed
  from c(2) have "set (dict_keys (getitem self c)) \<inter> set (dict_keys (getitem other c)) \<noteq> {}"
    by (simp add: no_conflict_def)
  from first_conflict_split [OF this] le before show ?thesis by blast
qed

text \<open>
  Merging an instance into itself stores nothing, whether it raises or not: the case of
  two references to one object.
\<close>

lemma helper_self: "snd (res_merge_helper d d) = d"
  by (cases d) (auto simp: dict_contains_def dict_keys_def)

lemma putitem_getitem: "putitem r k (getitem r k) = r"
  by (cases k) simp_all

lemma iadd_loop_self: "snd (iadd_loop A A ks) = A"
proof (induction ks)
  case Nil
  show ?case by simp
next
  case (Cons k ks)
  obtain r d where h: "res_merge_helper (getitem A k) (getitem A k) = (r, d)"
    by (cases "res_merge_helper (getitem A k) (getitem A k)")
  with helper_self [of "getitem A k"] have d: "d = getitem A k" by simp
  show ?case
    using Cons.IH by (cases r) (simp_all add: h d putitem_getitem)
qed

lemma iadd_self: "snd (iadd A A) = A"
  by (simp add: iadd_def iadd_loop_self)

section \<open>The export\<close>

lemma gen_filter:
  "as_pdf_object_gen self ks =
     map (\<lambda>k. (ResourceType_value k, getitem self k)) (filter (\<lambda>k. getitem self k \<noteq> []) ks)"
  by (induction ks) (simp_all add: Let_def)

lemma export_keys_distinct:
  "distinct (map ResourceType_value (filter P ResourceType_members))"
  by (rule distinct_map_filter) (simp add: distinct_map members_distinct inj_on_def value_inj)

section \<open>Evaluation on concrete inputs\<close>

lemmas eval_defs =
  iadd_def ResourceType_members_def PdfResources_init_def dict_contains_def dict_keys_def
  conflict_message_def no_conflict_def wf_resources_def wf_dict_def disjoint_resources_def

lemma RawContent_render_iter:
  "((snd \<circ> RawContent_render) ^^ n) self = self"
  by (induction n) (simp_all add: RawContent_render_def)

section \<open>The claims\<close>

subsection \<open>C1: union of disjoint resource dictionaries\<close>

text \<open>
  Claim C1. Let \<open>a\<close> and \<open>b\<close> refer to two resource dictionaries in a store (they may be
  the same object), such that no category has a name in both, the mappings of the second
  being dictionaries. Then \<^verbatim>\<open>a += b\<close> returns without error; afterwards every category of
  the first holds exactly its former items followed by the items of the second for that
  category; the second is unchanged, and so is every other object. \<^verbatim>\<open>import_resources\<close> on
  a fragment that owns the first dictionary succeeds with the same result.
\<close>

theorem union_property:
  assumes "wf_resources (h b)" and "disjoint_resources (h a) (h b)"
  shows "\<exists>h'. iadd_stmt h a b = (Inr (), h') \<and> iadd (h a) (h b) = (Inr (), h' a) \<and>
           (\<forall>c. getitem (h' a) c = getitem (h a) c @ getitem (h b) c) \<and>
           h' b = h b \<and> (\<forall>r. r \<noteq> a \<longrightarrow> h' r = h r) \<and>
           import_resources (frag\<lparr>resources := h a\<rparr>) (h b)
             = (Inr (), frag\<lparr>resources := h' a\<rparr>)"
proof -
  from iadd_disjoint [OF assms] obtain self' where
    run: "iadd (h a) (h b) = (Inr (), self')"
    and g: "\<And>c. getitem self' c = getitem (h a) c @ getitem (h b) c"
    by blast
  let ?h' = "h(a := self')"
  have 1: "iadd_stmt h a b = (Inr (), ?h')" by (simp add: iadd_stmt_def run)
  have 0: "iadd (h a) (h b) = (Inr (), ?h' a)" by (simp add: run)
  have 2: "\<forall>c. getitem (?h' a) c = getitem (h a) c @ getitem (h b) c" using g by simp
  have 3: "?h' b = h b"
  proof (cases "a = b")
    case True
    have "self' = h a"
    proof (rule PdfResources_eqI)
      fix c
      have "getitem (h a) c = []"
        using disjoint_resourcesD [OF assms(2), of c] True by (simp add: no_conflict_self_empty)
      then show "getitem self' c = getitem (h a) c" using g [of c] True by simp
    qed
    with True show ?thesis by simp
  next
    case False
    then show ?thesis by simp
  qed
  have 4: "\<forall>r. r \<noteq> a \<longrightarrow> ?h' r = h r" by simp
  have 5: "import_resources (frag\<lparr>resources := h a\<rparr>) (h b) = (Inr (), frag\<lparr>resources := ?h' a\<rparr>)"
    by (simp add: import_resources_def run)
  from 0 1 2 3 4 5 show ?thesis by blast
qed

theorem union_property_witness:
  "wf_resources (PdfResources_init\<lparr>pattern := [(''/P1'', 21::nat)], font := [(''/F2'', 20)]\<rparr>)
   \<and> disjoint_resources
        (PdfResources_init\<lparr>xobject := [(''/Im1'', 11::nat)], font := [(''/F1'', 10)]\<rparr>)
        (PdfResources_init\<lparr>pattern := [(''/P1'', 21)], font := [(''/F2'', 20)]\<rparr>)
   \<and> (\<exists>h'. iadd_stmt
          ((\<lambda>r. PdfResources_init)
             (0 := PdfResources_init\<lparr>xobject := [(''/Im1'', 11::nat)], font := [(''/F1'', 10)]\<rparr>,
              1 := PdfResources_init\<lparr>pattern := [(''/P1'', 21)], font := [(''/F2'', 20)]\<rparr>))
          0 1 = (Inr (), h')
        \<and> h' 0 = \<lparr>ext_g_state = [], color_space = [], pattern = [(''/P1'', 21)], shading = [],
                   xobject = [(''/Im1'', 11)], font = [(''/F1'', 10), (''/F2'', 20)],
                   properties = []\<rparr>
        \<and> h' 1 = PdfResources_init\<lparr>pattern := [(''/P1'', 21)], font := [(''/F2'', 20)]\<rparr>)"
proof -
  let ?A = "PdfResources_init\<lparr>xobject := [(''/Im1'', 11::nat)], font := [(''/F1'', 10)]\<rparr>"
  let ?B = "PdfResources_init\<lparr>pattern := [(''/P1'', 21::nat)], font := [(''/F2'', 20)]\<rparr>"
  let ?h = "(\<lambda>r. PdfResources_init)(0 := ?A, 1 := ?B) :: nat store"
  have 1: "wf_resources (?h 1)" by (simp add: eval_defs)
  have 2: "disjoint_resources (?h 0) (?h 1)" by (simp add: eval_defs)
  from union_property [OF 1 2] obtain h' where
    run: "iadd_stmt ?h 0 1 = (Inr (), h')"
    and g: "\<And>c. getitem (h' 0) c = getitem (?h 0) c @ getitem (?h 1) c"
    and b: "h' 1 = ?h 1"
    by blast
  have "h' 0 = \<lparr>ext_g_state = [], color_space = [], pattern = [(''/P1'', 21)], shading = [],
                   xobject = [(''/Im1'', 11)], font = [(''/F1'', 10), (''/F2'', 20)],
                   properties = []\<rparr>"
    by (rule PdfResources_eqI) (simp add: g, case_tac c, simp_all add: PdfResources_init_def)
  with run b 1 2 show ?thesis by simp
qed

subsection \<open>C2: conflict detection\<close>

text \<open>
  Claim C2 says that the error raised on a shared name identifies both the category and
  the name. The exception carries one string, built from the name alone: a shared name
  \<^verbatim>\<open>/R1\<close> under \<^verbatim>\<open>Font\<close> and the same shared name under \<^verbatim>\<open>Pattern\<close> raise equal errors, so
  the category cannot be read off the error.
\<close>

theorem conflict_category_not_identified:
  "fst (iadd (PdfResources_init\<lparr>font := [(''/R1'', 1::nat)]\<rparr>)
             (PdfResources_init\<lparr>font := [(''/R1'', 2)]\<rparr>))
     = Inl (ResourceManagementError ''Resource with name /R1 occurs in both dictionaries.'')
   \<and> fst (iadd (PdfResources_init\<lparr>pattern := [(''/R1'', 1::nat)]\<rparr>)
               (PdfResources_init\<lparr>pattern := [(''/R1'', 2)]\<rparr>))
     = Inl (ResourceManagementError ''Resource with name /R1 occurs in both dictionaries.'')
   \<and> map (no_conflict (PdfResources_init\<lparr>font := [(''/R1'', 1::nat)]\<rparr>)
                       (PdfResources_init\<lparr>font := [(''/R1'', 2)]\<rparr>))
        [EXT_G_STATE, COLOR_SPACE, PATTERN, SHADING, XOBJECT, FONT, PROPERTIES]
       = [True, True, True, True, True, False, True]
   \<and> map (no_conflict (PdfResources_init\<lparr>pattern := [(''/R1'', 1::nat)]\<rparr>)
                       (PdfResources_init\<lparr>pattern := [(''/R1'', 2)]\<rparr>))
        [EXT_G_STATE, COLOR_SPACE, PATTERN, SHADING, XOBJECT, FONT, PROPERTIES]
       = [True, True, False, True, True, True, True]"
  by (simp add: eval_defs)

text \<open>
  Claim C2, amended. If some name \<open>n\<close> is in both mappings of some category \<open>c\<close> (the
  mappings of the second dictionary being dictionaries), the merge raises
  \<^verbatim>\<open>ResourceManagementError\<close>. Its message is built from the first shared name met: the
  name \<open>n'\<close> of the first category \<open>c'\<close> in enumeration order with a shared name, first in
  the iteration over the second dictionary's mapping of \<open>c'\<close>. The message determines that
  name, and nothing in the error depends on the category. \<^verbatim>\<open>import_resources\<close> raises the
  same error.
\<close>

theorem conflict_detection:
  assumes "wf_resources B"
    and "n \<in> set (dict_keys (getitem A c))" and "n \<in> set (dict_keys (getitem B c))"
  shows "\<exists>c' n' pre v post.
           position c' \<le> position c \<and>
           (\<forall>k. position k < position c' \<longrightarrow> no_conflict A B k) \<and>
           getitem B c' = pre @ (n', v) # post \<and>
           set (dict_keys (getitem A c')) \<inter> set (dict_keys pre) = {} \<and>
           n' \<in> set (dict_keys (getitem A c')) \<and>
           fst (iadd A B) = Inl (ResourceManagementError (conflict_message n')) \<and>
           (\<forall>m. conflict_message m = conflict_message n' \<longrightarrow> m = n') \<and>
           fst (import_resources (frag\<lparr>resources := A\<rparr>) B) = fst (iadd A B)"
proof -
  have "\<not> no_conflict A B c" using assms(2,3) by (auto simp: no_conflict_def)
  from first_conflict_exists [OF this] obtain c' pre n' v post where
    le: "position c' \<le> position c"
    and before: "\<forall>k. position k < position c' \<longrightarrow> no_conflict A B k"
    and split: "getitem B c' = pre @ (n', v) # post"
    and pre: "set (dict_keys (getitem A c')) \<inter> set (dict_keys pre) = {}"
    and n': "n' \<in> set (dict_keys (getitem A c'))"
    by blast
  from iadd_first_conflict [OF assms(1) _ split pre n'] before
  have run: "fst (iadd A B) = Inl (ResourceManagementError (conflict_message n'))"
    by fastforce
  have inj: "\<forall>m. conflict_message m = conflict_message n' \<longrightarrow> m = n'"
    by (simp add: conflict_message_def)
  have imp: "fst (import_resources (frag\<lparr>resources := A\<rparr>) B) = fst (iadd A B)"
    by (simp add: import_resources_def split: prod.splits)
  from le before split pre n' run inj imp show ?thesis by blast
qed

theorem conflict_detection_witness:
  "wf_resources (PdfResources_init\<lparr>xobject := [(''/Im0'', 5::nat), (''/Im1'', 6)],
                                   font := [(''/F1'', 7)]\<rparr>)
   \<and> ''/F1'' \<in> set (dict_keys (getitem
        (PdfResources_init\<lparr>xobject := [(''/Im1'', 1::nat)], font := [(''/F1'', 2)]\<rparr>) FONT))
   \<and> ''/F1'' \<in> set (dict_keys (getitem
        (PdfResources_init\<lparr>xobject := [(''/Im0'', 5::nat), (''/Im1'', 6)],
                            font := [(''/F1'', 7)]\<rparr>) FONT))
   \<and> (\<exists>c' n'. position c' \<le> position FONT
        \<and> fst (iadd (PdfResources_init\<lparr>xobject := [(''/Im1'', 1::nat)], font := [(''/F1'', 2)]\<rparr>)
                     (PdfResources_init\<lparr>xobject := [(''/Im0'', 5), (''/Im1'', 6)],
                                         font := [(''/F1'', 7)]\<rparr>))
            = Inl (ResourceManagementError (conflict_message n')))
   \<and> fst (iadd (PdfResources_init\<lparr>xobject := [(''/Im1'', 1::nat)], font := [(''/F1'', 2)]\<rparr>)
               (PdfResources_init\<lparr>xobject := [(''/Im0'', 5), (''/Im1'', 6)],
                                   font := [(''/F1'', 7)]\<rparr>))
       = Inl (ResourceManagementError ''Resource with name /Im1 occurs in both dictionaries.'')"
proof -
  let ?A = "PdfResources_init\<lparr>xobject := [(''/Im1'', 1::nat)], font := [(''/F1'', 2)]\<rparr>"
  let ?B = "PdfResources_init\<lparr>xobject := [(''/Im0'', 5::nat), (''/Im1'', 6)],
                              font := [(''/F1'', 7)]\<rparr>"
  have 1: "wf_resources ?B" by (simp add: eval_defs)
  have 2: "''/F1'' \<in> set (dict_keys (getitem ?A FONT))" by (simp add: eval_defs)
  have 3: "''/F1'' \<in> set (dict_keys (getitem ?B FONT))" by (simp add: eval_defs)
  from conflict_detection [OF 1 2 3]
  have 4: "\<exists>c' n'. position c' \<le> position FONT
        \<and> fst (iadd ?A ?B) = Inl (ResourceManagementError (conflict_message n'))"
    by blast
  have 5: "fst (iadd ?A ?B)
       = Inl (ResourceManagementError ''Resource with name /Im1 occurs in both dictionaries.'')"
    by (simp add: eval_defs)
  from 1 2 3 4 5 show ?thesis by blast
qed

subsection \<open>C3: categories merged before the failure stay merged\<close>

text \<open>
  Claim C3. If the two dictionaries share names in category \<open>C\<close> only, the merge raises
  \<^verbatim>\<open>ResourceManagementError\<close>, and afterwards every category that precedes \<open>C\<close> in the
  enumeration order holds its former items followed by those of the second dictionary:
  the failed merge is not undone. The categories after \<open>C\<close> are as they were. (The
  statement holds for the first category too, which no category precedes.)
\<close>

theorem partial_mutation:
  assumes "wf_resources B" and "\<not> no_conflict A B C"
    and "\<forall>c. c \<noteq> C \<longrightarrow> no_conflict A B c"
  shows "\<exists>msg A'. iadd A B = (Inl (ResourceManagementError msg), A') \<and>
           (\<forall>c. position c < position C \<longrightarrow> getitem A' c = getitem A c @ getitem B c) \<and>
           (\<forall>c. position C < position c \<longrightarrow> getitem A' c = getitem A c)"
proof -
  from assms(2) have "set (dict_keys (getitem A C)) \<inter> set (dict_keys (getitem B C)) \<noteq> {}"
    by (simp add: no_conflict_def)
  from first_conflict_split [OF this] obtain pre n v post where
    split: "getitem B C = pre @ (n, v) # post"
    and n: "n \<in> set (dict_keys (getitem A C))"
    and pre: "set (dict_keys (getitem A C)) \<inter> set (dict_keys pre) = {}"
    by blast
  have before: "\<And>k. position k < position C \<Longrightarrow> no_conflict A B k"
    using assms(3) by auto
  from iadd_first_conflict [OF assms(1) before split pre n] obtain A' where
    run: "iadd A B = (Inl (ResourceManagementError (conflict_message n)), A')"
    and g: "\<And>k. getitem A' k =
              (if position k < position C then getitem A k @ getitem B k
               else if k = C then getitem A C @ pre else getitem A k)"
    by blast
  have "\<forall>c. position c < position C \<longrightarrow> getitem A' c = getitem A c @ getitem B c"
    using g by simp
  moreover have "\<forall>c. position C < position c \<longrightarrow> getitem A' c = getitem A c"
    using g by auto
  ultimately show ?thesis using run by blast
qed

theorem partial_mutation_witness:
  "wf_resources (PdfResources_init\<lparr>pattern := [(''/P2'', 3::nat)], font := [(''/F1'', 4)],
                                   properties := [(''/MC0'', 5)]\<rparr>)
   \<and> \<not> no_conflict (PdfResources_init\<lparr>pattern := [(''/P1'', 1::nat)], font := [(''/F1'', 2)]\<rparr>)
          (PdfResources_init\<lparr>pattern := [(''/P2'', 3)], font := [(''/F1'', 4)],
                              properties := [(''/MC0'', 5)]\<rparr>) FONT
   \<and> (\<exists>msg A'.
         iadd (PdfResources_init\<lparr>pattern := [(''/P1'', 1::nat)], font := [(''/F1'', 2)]\<rparr>)
              (PdfResources_init\<lparr>pattern := [(''/P2'', 3)], font := [(''/F1'', 4)],
                                  properties := [(''/MC0'', 5)]\<rparr>)
           = (Inl (ResourceManagementError msg), A')
         \<and> pattern A' = [(''/P1'', 1), (''/P2'', 3)] \<and> properties A' = [])"
proof -
  let ?A = "PdfResources_init\<lparr>pattern := [(''/P1'', 1::nat)], font := [(''/F1'', 2)]\<rparr>"
  let ?B = "PdfResources_init\<lparr>pattern := [(''/P2'', 3::nat)], font := [(''/F1'', 4)],
                              properties := [(''/MC0'', 5)]\<rparr>"
  have 1: "wf_resources ?B" by (simp add: eval_defs)
  have 2: "\<not> no_conflict ?A ?B FONT" by (simp add: eval_defs)
  have 3: "\<forall>c. c \<noteq> FONT \<longrightarrow> no_conflict ?A ?B c"
  proof (intro allI impI)
    fix c :: ResourceType assume "c \<noteq> FONT"
    then show "no_conflict ?A ?B c" by (cases c) (simp_all add: eval_defs)
  qed
  from partial_mutation [OF 1 2 3] obtain msg A' where
    run: "iadd ?A ?B = (Inl (ResourceManagementError msg), A')"
    and before: "\<And>c. position c < position FONT \<Longrightarrow> getitem A' c = getitem ?A c @ getitem ?B c"
    and after: "\<And>c. position FONT < position c \<Longrightarrow> getitem A' c = getitem ?A c"
    by blast
  have "pattern A' = [(''/P1'', 1), (''/P2'', 3)]"
    using before [of PATTERN] by (simp add: position_def ResourceType_members_def PdfResources_init_def)
  moreover have "properties A' = []"
    using after [of PROPERTIES] by (simp add: position_def ResourceType_members_def PdfResources_init_def)
  ultimately show ?thesis using 1 2 run by blast
qed

subsection \<open>C4: the export\<close>

text \<open>
  Claim C4. \<^verbatim>\<open>as_pdf_object\<close> returns the pairs (namespace key, mapping) of the categories
  whose mapping is not empty, in the enumeration order of the categories, whatever the
  order in which the resources were inserted. The result is a dictionary; looking up the
  key of a category gives its mapping when that is not empty and nothing otherwise; a
  freshly constructed \<^verbatim>\<open>PdfResources\<close> exports to the empty dictionary.
\<close>

theorem export_deterministic:
  "as_pdf_object self =
     map (\<lambda>k. (ResourceType_value k, getitem self k))
       (filter (\<lambda>k. getitem self k \<noteq> []) ResourceType_members)
   \<and> wf_dict (as_pdf_object self)
   \<and> dict_get (as_pdf_object self) (ResourceType_value c)
       = (if getitem self c = [] then None else Some (getitem self c))
   \<and> as_pdf_object (PdfResources_init :: 'v PdfResources) = []"
proof -
  let ?ks = "filter (\<lambda>k. getitem self k \<noteq> []) ResourceType_members"
  let ?out = "map (\<lambda>k. (ResourceType_value k, getitem self k)) ?ks"
  have keys: "dict_keys ?out = map ResourceType_value ?ks"
    by (simp add: dict_keys_def comp_def)
  have d: "distinct (dict_keys ?out)" unfolding keys by (rule export_keys_distinct)
  have 1: "as_pdf_object self = ?out"
    unfolding as_pdf_object_def gen_filter using d by (rule dict_comprehension_distinct)
  have 2: "wf_dict (as_pdf_object self)" unfolding 1 wf_dict_def by (rule d)
  have 3: "dict_get (as_pdf_object self) (ResourceType_value c)
       = (if getitem self c = [] then None else Some (getitem self c))"
  proof (cases "getitem self c = []")
    case True
    then have "ResourceType_value c \<notin> fst ` set ?out"
      by (auto dest: value_inj)
    then have "map_of ?out (ResourceType_value c) = None"
      unfolding map_of_eq_None_iff .
    with True show ?thesis by (simp add: 1 dict_get_def)
  next
    case False
    then have "(ResourceType_value c, getitem self c) \<in> set ?out"
      using members_complete [of c] by auto
    with d have "map_of ?out (ResourceType_value c) = Some (getitem self c)"
      unfolding dict_keys_def by (rule map_of_is_SomeI)
    with False show ?thesis by (simp add: 1 dict_get_def)
  qed
  have 4: "as_pdf_object (PdfResources_init :: 'v PdfResources) = []"
    by (simp add: as_pdf_object_def ResourceType_members_def PdfResources_init_def
        dict_comprehension_def)
  from 1 2 3 4 show ?thesis by blast
qed

theorem export_deterministic_witness:
  "as_pdf_object (PdfResources_init\<lparr>font := [(''/F1'', 1::nat)], pattern := [(''/P1'', 2)]\<rparr>)
     = [(''/Pattern'', [(''/P1'', 2)]), (''/Font'', [(''/F1'', 1)])]
   \<and> dict_get (as_pdf_object
        (PdfResources_init\<lparr>font := [(''/F1'', 1::nat)], pattern := [(''/P1'', 2)]\<rparr>))
        ''/Shading'' = None
   \<and> as_pdf_object (PdfResources_init :: nat PdfResources) = []"
proof -
  let ?r = "PdfResources_init\<lparr>font := [(''/F1'', 1::nat)], pattern := [(''/P1'', 2)]\<rparr>"
  from export_deterministic [of ?r SHADING]
  have 1: "as_pdf_object ?r =
      map (\<lambda>k. (ResourceType_value k, getitem ?r k))
        (filter (\<lambda>k. getitem ?r k \<noteq> []) ResourceType_members)"
    and 2: "dict_get (as_pdf_object ?r) (ResourceType_value SHADING)
      = (if getitem ?r SHADING = [] then None else Some (getitem ?r SHADING))"
    and 3: "as_pdf_object (PdfResources_init :: nat PdfResources) = []"
    by blast+
  from 1 have "as_pdf_object ?r = [(''/Pattern'', [(''/P1'', 2)]), (''/Font'', [(''/F1'', 1)])]"
    by (simp add: ResourceType_members_def PdfResources_init_def)
  moreover from 2 have "dict_get (as_pdf_object ?r) ''/Shading'' = None"
    by (simp add: PdfResources_init_def)
  ultimately show ?thesis using 3 by blast
qed

subsection \<open>C5: items merged before the conflicting name stay merged\<close>

text \<open>
  Claim C5. When the merge fails in category \<open>C\<close> at the name \<open>n\<close> (no earlier category
  has a shared name, and the items \<open>pre\<close> that the second dictionary's mapping of \<open>C\<close>
  yields before \<open>n\<close> have names the first lacks), then at the time of the error the first
  dictionary's mapping of \<open>C\<close> holds its former items followed by \<open>pre\<close>.
\<close>

theorem partial_mutation_within_category:
  assumes "wf_resources B"
    and "\<forall>k. position k < position C \<longrightarrow> no_conflict A B k"
    and "getitem B C = pre @ (n, v) # post"
    and "set (dict_keys (getitem A C)) \<inter> set (dict_keys pre) = {}"
    and "n \<in> set (dict_keys (getitem A C))"
  shows "\<exists>A'. iadd A B = (Inl (ResourceManagementError (conflict_message n)), A') \<and>
           getitem A' C = getitem A C @ pre \<and> set pre \<subseteq> set (getitem A' C)"
proof -
  have before: "\<And>k. position k < position C \<Longrightarrow> no_conflict A B k"
    using assms(2) by auto
  from iadd_first_conflict [OF assms(1) before assms(3,4,5)] obtain A' where
    run: "iadd A B = (Inl (ResourceManagementError (conflict_message n)), A')"
    and g: "\<And>k. getitem A' k =
              (if position k < position C then getitem A k @ getitem B k
               else if k = C then getitem A C @ pre else getitem A k)"
    by blast
  have "getitem A' C = getitem A C @ pre" using g [of C] by simp
  then show ?thesis using run by auto
qed

theorem partial_mutation_within_category_witness:
  "wf_resources (PdfResources_init\<lparr>font :=
       [(''/F2'', 2::nat), (''/F3'', 3), (''/F1'', 4), (''/F5'', 5)]\<rparr>)
   \<and> getitem (PdfResources_init\<lparr>font :=
       [(''/F2'', 2::nat), (''/F3'', 3), (''/F1'', 4), (''/F5'', 5)]\<rparr>) FONT
       = [(''/F2'', 2), (''/F3'', 3)] @ (''/F1'', 4) # [(''/F5'', 5)]
   \<and> ''/F1'' \<in> set (dict_keys (getitem (PdfResources_init\<lparr>font := [(''/F1'', 1::nat)]\<rparr>) FONT))
   \<and> (\<exists>A'. iadd (PdfResources_init\<lparr>font := [(''/F1'', 1::nat)]\<rparr>)
              (PdfResources_init\<lparr>font :=
                 [(''/F2'', 2), (''/F3'', 3), (''/F1'', 4), (''/F5'', 5)]\<rparr>)
           = (Inl (ResourceManagementError
                ''Resource with name /F1 occurs in both dictionaries.''), A')
         \<and> font A' = [(''/F1'', 1), (''/F2'', 2), (''/F3'', 3)])"
proof -
  let ?A = "PdfResources_init\<lparr>font := [(''/F1'', 1::nat)]\<rparr>"
  let ?B = "PdfResources_init\<lparr>font :=
       [(''/F2'', 2::nat), (''/F3'', 3), (''/F1'', 4), (''/F5'', 5)]\<rparr>"
  have 1: "wf_resources ?B" by (simp add: eval_defs)
  have 2: "\<forall>k. position k < position FONT \<longrightarrow> no_conflict ?A ?B k"
  proof (intro allI impI)
    fix k :: ResourceType assume "position k < position FONT"
    then show "no_conflict ?A ?B k"
      by (cases k) (simp_all add: eval_defs position_def)
  qed
  have 3: "getitem ?B FONT = [(''/F2'', 2), (''/F3'', 3)] @ (''/F1'', 4) # [(''/F5'', 5)]"
    by simp
  have 4: "set (dict_keys (getitem ?A FONT)) \<inter> set (dict_keys [(''/F2'', 2::nat), (''/F3'', 3)]) = {}"
    by (simp add: eval_defs)
  have 5: "''/F1'' \<in> set (dict_keys (getitem ?A FONT))" by (simp add: eval_defs)
  from partial_mutation_within_category [OF 1 2 3 4 5] obtain A' where
    "iadd ?A ?B = (Inl (ResourceManagementError (conflict_message ''/F1'')), A')"
    and "getitem A' FONT = getitem ?A FONT @ [(''/F2'', 2), (''/F3'', 3)]"
    by blast
  then have "iadd ?A ?B = (Inl (ResourceManagementError
                ''Resource with name /F1 occurs in both dictionaries.''), A')
         \<and> font A' = [(''/F1'', 1), (''/F2'', 2), (''/F3'', 3)]"
    by (simp add: conflict_message_def)
  with 1 3 5 show ?thesis by blast
qed

subsection \<open>C6: the form XObject\<close>

text \<open>
  Claim C6. If \<^verbatim>\<open>render\<close> returns the bytes \<open>b\<close>, leaving the fragment in the state
  \<open>self'\<close> whose box has width \<open>w\<close> and height \<open>h\<close>, then \<^verbatim>\<open>as_form_xobject\<close> returns what
  \<^verbatim>\<open>init_xobject_dictionary\<close> makes of \<open>b\<close>, \<open>w\<close>, \<open>h\<close> and the export of the fragment's
  resources at the time of that call. The fragment is left as one call of \<^verbatim>\<open>render\<close>
  leaves it: \<^verbatim>\<open>render\<close> has run exactly once and nothing else was changed, the writer in
  particular, so nothing has been registered with it.
\<close>

theorem as_form_xobject_contract:
  assumes "render self = (Inr b, self')"
    and "width (box self') = w" and "height (box self') = h"
  shows "as_form_xobject render init_xobject_dictionary self
           = (Inr (init_xobject_dictionary b w h (as_pdf_object (resources self'))), self')
         \<and> snd (as_form_xobject render init_xobject_dictionary self) = snd (render self)
         \<and> writer (snd (as_form_xobject render init_xobject_dictionary self)) = writer self'"
  using assms by (simp add: as_form_xobject_def)

text \<open>
  The example of the spec, with a \<^verbatim>\<open>render\<close> that counts its calls in the subclass part
  of the instance: one call is counted.
\<close>

theorem as_form_xobject_contract_witness:
  "(\<lambda>s. (Inr ''0 0 1 RG'', PdfContent.more_update Suc s))
       \<lparr>resources = PdfResources_init\<lparr>font := [(''/F1'', 1::nat)]\<rparr>,
        box = \<lparr>width = 100, height = 50\<rparr>, writer = Some (7::nat), \<dots> = 0::nat\<rparr>
     = (Inr ''0 0 1 RG'',
        \<lparr>resources = PdfResources_init\<lparr>font := [(''/F1'', 1::nat)]\<rparr>,
         box = \<lparr>width = 100, height = 50\<rparr>, writer = Some (7::nat), \<dots> = 1::nat\<rparr>)
   \<and> as_form_xobject (\<lambda>s. (Inr ''0 0 1 RG'', PdfContent.more_update Suc s))
       (\<lambda>body w h res. (body, w, h, res))
       \<lparr>resources = PdfResources_init\<lparr>font := [(''/F1'', 1::nat)]\<rparr>,
        box = \<lparr>width = 100, height = 50\<rparr>, writer = Some (7::nat), \<dots> = 0::nat\<rparr>
     = (Inr (''0 0 1 RG'', 100, 50, [(''/Font'', [(''/F1'', 1)])]),
        \<lparr>resources = PdfResources_init\<lparr>font := [(''/F1'', 1::nat)]\<rparr>,
         box = \<lparr>width = 100, height = 50\<rparr>, writer = Some (7::nat), \<dots> = 1::nat\<rparr>)"
proof -
  let ?render = "\<lambda>s :: (nat, nat, nat) PdfContent_scheme.
                   (Inr ''0 0 1 RG'' :: error + bytes, PdfContent.more_update Suc s)"
  let ?s = "\<lparr>resources = PdfResources_init\<lparr>font := [(''/F1'', 1::nat)]\<rparr>,
        box = \<lparr>width = 100, height = 50\<rparr>, writer = Some (7::nat), \<dots> = 0::nat\<rparr>"
  let ?s' = "\<lparr>resources = PdfResources_init\<lparr>font := [(''/F1'', 1::nat)]\<rparr>,
        box = \<lparr>width = 100, height = 50\<rparr>, writer = Some (7::nat), \<dots> = 1::nat\<rparr>"
  have 1: "?render ?s = (Inr ''0 0 1 RG'', ?s')" by simp
  have 2: "width (box ?s') = 100" by simp
  have 3: "height (box ?s') = 50" by simp
  have 4: "as_pdf_object (resources ?s') = [(''/Font'', [(''/F1'', 1)])]"
    by (simp add: as_pdf_object_def ResourceType_members_def PdfResources_init_def
        dict_comprehension_def)
  from as_form_xobject_contract [of ?render ?s "''0 0 1 RG''" ?s' 100 50 "\<lambda>body w h res. (body, w, h, res)", OF 1 2 3]
  have "as_form_xobject ?render (\<lambda>body w h res. (body, w, h, res)) ?s
         = (Inr (''0 0 1 RG'', 100, 50, as_pdf_object (resources ?s')), ?s')"
    by simp
  with 1 4 show ?thesis by simp
qed

subsection \<open>C7: raw content\<close>

text \<open>
  Claim C7. \<^verbatim>\<open>render\<close> of a \<^verbatim>\<open>RawContent\<close> returns the stored bytes and leaves the instance
  as it is; an instance constructed with the bytes \<open>b\<close> stores \<open>b\<close>; hence after any number
  \<open>n\<close> of calls the next call returns \<open>b\<close> again.
\<close>

theorem raw_passthrough:
  "RawContent_render self = (Inr (data self), self) \<and>
   data (RawContent_init new_box b res bx :: ('v, 'w) RawContent) = b \<and>
   fst (RawContent_render (((snd \<circ> RawContent_render) ^^ n)
          (RawContent_init new_box b res bx :: ('v, 'w) RawContent))) = Inr b"
  by (simp add: RawContent_render_iter)
    (simp add: RawContent_render_def RawContent_init_def PdfContent.extend_def RawContent.fields_def PdfContent_init_def)

theorem raw_passthrough_witness:
  "fst (RawContent_render (((snd \<circ> RawContent_render) ^^ 2)
          (RawContent_init \<lparr>width = 0, height = 0\<rparr> ''q 1 0 0 1 0 0 cm Q'' None None
             :: (nat, nat) RawContent))) = Inr ''q 1 0 0 1 0 0 cm Q''
   \<and> fst (RawContent_render
          (RawContent_init \<lparr>width = 0, height = 0\<rparr> ''q 1 0 0 1 0 0 cm Q'' None None
             :: (nat, nat) RawContent)) = Inr ''q 1 0 0 1 0 0 cm Q''"
proof -
  let ?s = "RawContent_init \<lparr>width = 0, height = 0\<rparr> ''q 1 0 0 1 0 0 cm Q'' None None
             :: (nat, nat) RawContent"
  from raw_passthrough [of ?s "\<lparr>width = 0, height = 0\<rparr>" "''q 1 0 0 1 0 0 cm Q''" None None 2]
  have "fst (RawContent_render (((snd \<circ> RawContent_render) ^^ 2) ?s))
          = Inr ''q 1 0 0 1 0 0 cm Q''"
    by blast
  moreover
  from raw_passthrough [of ?s "\<lparr>width = 0, height = 0\<rparr>" "''q 1 0 0 1 0 0 cm Q''" None None 0]
  have "fst (RawContent_render ?s) = Inr ''q 1 0 0 1 0 0 cm Q''"
    unfolding funpow_0 by blast
  ultimately show ?thesis by blast
qed

subsection \<open>C8: setting one resource\<close>

text \<open>
  Claim C8. \<^verbatim>\<open>set_resource\<close> never raises. Afterwards the mapping of the category maps
  the name to the value and every other name as before (a name that was present keeps
  its place, a new one comes last); the mappings of the other categories, the box, the
  writer and the subclass part are unchanged.
\<close>

theorem set_resource_total:
  "\<exists>self'. set_resource self category name val = (Inr (), self') \<and>
     dict_get (getitem (resources self') category)
       = (dict_get (getitem (resources self) category))(name \<mapsto> val) \<and>
     dict_keys (getitem (resources self') category)
       = (if dict_contains name (getitem (resources self) category)
          then dict_keys (getitem (resources self) category)
          else dict_keys (getitem (resources self) category) @ [name]) \<and>
     (\<forall>c. c \<noteq> category \<longrightarrow> getitem (resources self') c = getitem (resources self) c) \<and>
     box self' = box self \<and> writer self' = writer self \<and>
     PdfContent.more self' = PdfContent.more self"
  by (simp add: set_resource_def getitem_putitem dict_get_setitem dict_keys_setitem)

theorem set_resource_total_witness:
  "set_resource
     \<lparr>resources = PdfResources_init\<lparr>pattern := [(''/P1'', 2::nat)], font := [(''/F1'', 1), (''/F2'', 3)]\<rparr>,
      box = \<lparr>width = 100, height = 50\<rparr>, writer = (None :: nat option)\<rparr>
     FONT ''/F1'' 9
   = (Inr (),
      \<lparr>resources = PdfResources_init\<lparr>pattern := [(''/P1'', 2::nat)], font := [(''/F1'', 9), (''/F2'', 3)]\<rparr>,
       box = \<lparr>width = 100, height = 50\<rparr>, writer = None\<rparr>)"
proof -
  let ?s = "\<lparr>resources = PdfResources_init\<lparr>pattern := [(''/P1'', 2::nat)], font := [(''/F1'', 1), (''/F2'', 3)]\<rparr>,
      box = \<lparr>width = 100, height = 50\<rparr>, writer = (None :: nat option)\<rparr>"
  from set_resource_total [of ?s FONT "''/F1''" 9] obtain s' where
    "set_resource ?s FONT ''/F1'' 9 = (Inr (), s')" by blast
  then show ?thesis by (simp add: set_resource_def PdfResources_init_def)
qed

subsection \<open>C9: the abstract render\<close>

text \<open>
  Claim C9. \<^verbatim>\<open>render\<close> of the base class raises \<^verbatim>\<open>NotImplementedError\<close> on every
  instance and returns no value; so does \<^verbatim>\<open>as_form_xobject\<close> when the class provides no
  \<^verbatim>\<open>render\<close> of its own.
\<close>

theorem render_not_implemented:
  "PdfContent_render self = (Inl NotImplementedError, self) \<and>
   fst (PdfContent_render self) \<noteq> Inr b \<and>
   as_form_xobject PdfContent_render init_xobject_dictionary self = (Inl NotImplementedError, self)"
  by (simp add: PdfContent_render_def as_form_xobject_def)

theorem render_not_implemented_witness:
  "fst (PdfContent_render
     (PdfContent_init \<lparr>width = 0, height = 0\<rparr> None None None :: (nat, nat) PdfContent))
   = Inl NotImplementedError"
  using render_not_implemented
    [of "PdfContent_init \<lparr>width = 0, height = 0\<rparr> None None None :: (nat, nat) PdfContent"
        "[]" "\<lambda>body w h res. ()"]
  by simp

subsection \<open>C10: setting the writer\<close>

text \<open>
  Claim C10. \<^verbatim>\<open>set_writer\<close> returns without error and rebinds the writer; the resource
  dictionary (every category's mapping), the box and the subclass part are unchanged.
\<close>

theorem set_writer_frame:
  "\<exists>self'. set_writer self wr = (Inr (), self') \<and> writer self' = wr \<and>
     resources self' = resources self \<and>
     (\<forall>c. getitem (resources self') c = getitem (resources self) c) \<and>
     box self' = box self \<and> PdfContent.more self' = PdfContent.more self"
  by (simp add: set_writer_def)

theorem set_writer_frame_witness:
  "set_writer
     \<lparr>resources = PdfResources_init\<lparr>font := [(''/F1'', 1::nat)]\<rparr>,
      box = \<lparr>width = 100, height = 50\<rparr>, writer = Some (3::nat)\<rparr> (Some 4)
   = (Inr (),
      \<lparr>resources = PdfResources_init\<lparr>font := [(''/F1'', 1::nat)]\<rparr>,
       box = \<lparr>width = 100, height = 50\<rparr>, writer = Some 4\<rparr>)"
proof -
  let ?s = "\<lparr>resources = PdfResources_init\<lparr>font := [(''/F1'', 1::nat)]\<rparr>,
      box = \<lparr>width = 100, height = 50\<rparr>, writer = Some (3::nat)\<rparr>"
  from set_writer_frame [of ?s "Some 4"] obtain s' where
    "set_writer ?s (Some 4) = (Inr (), s')" and "writer s' = Some 4"
    and "resources s' = resources ?s" and "box s' = box ?s"
    by blast
  then show ?thesis by (cases s') simp
qed

end
